theory Spec2Isabelle
  imports Complex_Main "HOL-Library.Multiset"
begin

section \<open>Python values and exceptions\<close>

text \<open>
  The module \<^verbatim>\<open>train_model.py\<close> is Python 2 (it uses the \<^verbatim>\<open>print\<close> statement).
  Python floats are idealised as the real numbers: every statement below about a quotient,
  a mean or a standard deviation is a statement in exact arithmetic. Python integers are
  \<^typ>\<open>int\<close>. Exceptions are values of a sum type, \<open>Inl\<close> carrying the exception.
\<close>

datatype error = IndexError | ZeroDivisionError | TypeError | ValueError

definition bind_err :: "error + 'a \<Rightarrow> ('a \<Rightarrow> error + 'b) \<Rightarrow> error + 'b" where
  "bind_err v f = (case v of Inl e \<Rightarrow> Inl e | Inr a \<Rightarrow> f a)"

text \<open>
  Indexing a Python list, \<^verbatim>\<open>xs[i]\<close>: an index from \<open>-len(xs)\<close> up to \<open>-1\<close> reads from
  the end, an index outside \<open>-len(xs) .. len(xs) - 1\<close> raises.
\<close>

definition py_index :: "'a list \<Rightarrow> int \<Rightarrow> error + 'a" where
  "py_index xs i =
     (if 0 \<le> i \<and> i < int (length xs) then Inr (xs ! nat i)
      else if - int (length xs) \<le> i \<and> i < 0 then Inr (xs ! nat (int (length xs) + i))
      else Inl IndexError)"

text \<open>The quotient of two floats; a zero divisor raises.\<close>

definition float_div :: "real \<Rightarrow> real \<Rightarrow> error + real" where
  "float_div a b = (if b \<noteq> 0 then Inr (a / b) else Inl ZeroDivisionError)"

text \<open>
  A printed line is kept as the format string and the values it is applied to
  (\<^verbatim>\<open>fmt % values\<close>), \<^verbatim>\<open>%d\<close> taking an integer and \<^verbatim>\<open>%f\<close> a float.
\<close>

datatype val = IntV int | FloatV real

type_synonym line = "string \<times> val list"

text \<open>
  The expression left of \<^verbatim>\<open>%\<close> in a \<^verbatim>\<open>print\<close>: a string literal, or two literals
  joined by the operator \<^verbatim>\<open>/\<close>. Python has no division of strings:
  \<^verbatim>\<open>"a" / "b"\<close> raises TypeError, and it does so before the operand right of \<^verbatim>\<open>%\<close>
  is evaluated (\<^verbatim>\<open>/\<close> and \<^verbatim>\<open>%\<close> have one precedence and associate to the left).
\<close>

datatype fexpr = Str string | StrDiv string string

fun eval_fexpr :: "fexpr \<Rightarrow> error + string" where
  "eval_fexpr (Str s) = Inr s"
| "eval_fexpr (StrDiv a b) = Inl TypeError"

type_synonym stmt = "fexpr \<times> (error + val list)"

text \<open>A block of \<^verbatim>\<open>print\<close> statements runs until the first exception.\<close>

fun run_prints :: "stmt list \<Rightarrow> line list \<times> error option" where
  "run_prints [] = ([], None)"
| "run_prints ((f, args) # rest) =
     (case eval_fexpr f of
        Inl e \<Rightarrow> ([], Some e)
      | Inr s \<Rightarrow>
          (case args of
             Inl e \<Rightarrow> ([], Some e)
           | Inr vs \<Rightarrow> (let (ls, e) = run_prints rest in ((s, vs) # ls, e))))"

section \<open>numpy reductions\<close>

text \<open>
  \<^verbatim>\<open>np.mean\<close>, \<^verbatim>\<open>np.std\<close> (the population standard deviation, \<^verbatim>\<open>ddof=0\<close>) and
  \<^verbatim>\<open>np.max\<close> on a list of floats. On the empty list numpy's mean and std are \<^verbatim>\<open>nan\<close>
  (with a warning, no exception), which the reals do not have; \<^verbatim>\<open>get_metrics\<close> calls them
  behind the guard \<^verbatim>\<open>len(recall) > 3\<close> only. \<^verbatim>\<open>np.max\<close> of the empty list raises.
\<close>

definition np_mean :: "real list \<Rightarrow> real" where
  "np_mean xs = sum_list xs / real (length xs)"

definition np_std :: "real list \<Rightarrow> real" where
  "np_std xs = sqrt (np_mean (map (\<lambda>v. \<bar>v - np_mean xs\<bar> ^ 2) xs))"

fun np_max :: "real list \<Rightarrow> error + real" where
  "np_max [] = Inl ValueError"
| "np_max (v # vs) = Inr (fold max vs v)"

section \<open>\<^verbatim>\<open>get_param_i\<close>\<close>

text \<open>
  \<^verbatim>\<open>
  def get_param_i(param, i):
      if len(param) > i:
          return param[i]
      else:
          return param[0]
  \<close>
\<close>

definition get_param_i :: "'a list \<Rightarrow> int \<Rightarrow> error + 'a" where
  "get_param_i param i =
     (if int (length param) > i then py_index param i else py_index param 0)"

section \<open>\<^verbatim>\<open>get_metrics\<close>: the ground-truth tables\<close>

text \<open>
  A row of the table \<^verbatim>\<open>craters[get_id(i)]\<close> with the three columns the function reads:
  \<^verbatim>\<open>'x'\<close>, \<^verbatim>\<open>'y'\<close> and \<^verbatim>\<open>'Diameter (pix)'\<close>.
\<close>

record row =
  col_x :: real
  col_y :: real
  col_diam :: real

text \<open>\<^verbatim>\<open>minrad, maxrad, cutrad, n_csvs = 2, 50, 0.8, len(X)\<close>\<close>

definition minrad :: real where "minrad = 2"
definition maxrad :: real where "maxrad = 50"
definition cutrad :: real where "cutrad = 8 / 10"

text \<open>
  The five successive selections of lines 121 to 125, each on the result of the one before:
  \<^verbatim>\<open>
  csv = csv[(csv[diam] < 2 * maxrad) & (csv[diam] > 2 * minrad)]
  csv = csv[(csv['x'] + cutrad * csv[diam] / 2 <= dim)]
  csv = csv[(csv['y'] + cutrad * csv[diam] / 2 <= dim)]
  csv = csv[(csv['x'] - cutrad * csv[diam] / 2 > 0)]
  csv = csv[(csv['y'] - cutrad * csv[diam] / 2 > 0)]
  \<close>
\<close>

definition filter_csv :: "int \<Rightarrow> row list \<Rightarrow> row list" where
  "filter_csv dm csv0 =
     (let csv1 = filter (\<lambda>c. col_diam c < 2 * maxrad \<and> col_diam c > 2 * minrad) csv0;
          csv2 = filter (\<lambda>c. col_x c + cutrad * col_diam c / 2 \<le> real_of_int dm) csv1;
          csv3 = filter (\<lambda>c. col_y c + cutrad * col_diam c / 2 \<le> real_of_int dm) csv2;
          csv4 = filter (\<lambda>c. col_x c - cutrad * col_diam c / 2 > 0) csv3;
          csv5 = filter (\<lambda>c. col_y c - cutrad * col_diam c / 2 > 0) csv4
      in csv5)"

text \<open>
  An element of the list \<^verbatim>\<open>csvs\<close>: the sentinel \<^verbatim>\<open>[-1]\<close> for a table with fewer than
  three rows left, or the array of \<open>(x, y, radius)\<close> triples.
  \<^verbatim>\<open>
  if len(csv) < 3:    # Exclude csvs with few craters
      csvs.append([-1])
  else:
      csv_coords = np.asarray((csv['x'], csv['y'], csv[diam] / 2)).T
      csvs.append(csv_coords)
  \<close>
\<close>

datatype csv_entry = Sentinel | Coords "(real \<times> real \<times> real) list"

fun len_entry :: "csv_entry \<Rightarrow> nat" where
  "len_entry Sentinel = 1"
| "len_entry (Coords cs) = length cs"

definition csv_coords :: "int \<Rightarrow> row list \<Rightarrow> csv_entry" where
  "csv_coords dm csv0 =
     (let csv = filter_csv dm csv0
      in if length csv < 3 then Sentinel
         else Coords (map (\<lambda>c. (col_x c, col_y c, col_diam c / 2)) csv))"

text \<open>
  The selection as the specification words it, for comparison: the radius strictly inside
  the band, and the centre farther from each of the four edges of the \<open>dim \<times> dim\<close> image
  than the \<open>cutrad\<close> fraction of the diameter.
\<close>

definition spec_keeps_row :: "int \<Rightarrow> row \<Rightarrow> bool" where
  "spec_keeps_row dm c \<longleftrightarrow>
     minrad < col_diam c / 2 \<and> col_diam c / 2 < maxrad \<and>
     col_x c > cutrad * col_diam c \<and> real_of_int dm - col_x c > cutrad * col_diam c \<and>
     col_y c > cutrad * col_diam c \<and> real_of_int dm - col_y c > cutrad * col_diam c"

section \<open>\<^verbatim>\<open>get_metrics\<close>: the matcher's result and the metrics of one image\<close>

text \<open>
  \<^verbatim>\<open>template_match_t2c\<close> lives in \<^verbatim>\<open>utils.template_match_target\<close>, outside this
  module. It enters the model as a parameter \<open>tm\<close>, a function of the prediction
  \<^verbatim>\<open>preds[i]\<close> and the entry \<^verbatim>\<open>csvs[i]\<close>, whose result is the tuple that
  \<^verbatim>\<open>get_metrics\<close> unpacks:
  \<^verbatim>\<open>(N_match, N_csv, N_templ, maxr, elo, ela, er, csv_duplicates)\<close>.
\<close>

record match =
  N_match :: int
  N_csv :: int
  N_templ :: int
  maxr :: real
  elo :: real
  ela :: real
  er :: real
  csv_duplicates :: "(real \<times> real \<times> real) list"

text \<open>
  Lines 146 to 150, each quotient a float division that raises on a zero divisor:
  \<^verbatim>\<open>
  p = float(N_match) / float(N_match + (N_templ - N_match))
  r = float(N_match) / float(N_csv)
  f = (1 + beta**2) * (r * p) / (p * beta**2 + r)
  fn = float(N_templ - N_match) / float(N_templ)
  fn2 = float(N_templ - N_match) / float(N_csv)
  \<close>
\<close>

definition image_metrics ::
  "int \<Rightarrow> match \<Rightarrow> error + (real \<times> real \<times> real \<times> real \<times> real)" where
  "image_metrics beta m =
     bind_err (float_div (real_of_int (N_match m))
                      (real_of_int (N_match m + (N_templ m - N_match m)))) (\<lambda>p.
     bind_err (float_div (real_of_int (N_match m)) (real_of_int (N_csv m))) (\<lambda>r.
     bind_err (float_div (real_of_int (1 + beta ^ 2) * (r * p))
                      (p * real_of_int (beta ^ 2) + r)) (\<lambda>f.
     bind_err (float_div (real_of_int (N_templ m - N_match m)) (real_of_int (N_templ m))) (\<lambda>fn.
     bind_err (float_div (real_of_int (N_templ m - N_match m)) (real_of_int (N_csv m))) (\<lambda>fn2.
     Inr (p, r, f, fn, fn2))))))"

text \<open>
  The default of the optional parameter:
  \<^verbatim>\<open>def get_metrics(data, craters, dim, model, beta=1)\<close>
\<close>

definition beta_default :: int where "beta_default = 1"

section \<open>\<^verbatim>\<open>get_metrics\<close>: the loop over the images\<close>

text \<open>
  The nine lists of lines 135 to 137. The list that the source calls \<^verbatim>\<open>maxrad\<close> from
  line 136 on (the name of the radius bound is reused) is \<open>maxrad_list\<close> here.
\<close>

record acc =
  recall :: "real list"
  precision :: "real list"
  fscore :: "real list"
  frac_new :: "real list"
  frac_new2 :: "real list"
  maxrad_list :: "real list"
  err_lo :: "real list"
  err_la :: "real list"
  err_r :: "real list"

definition acc_empty :: acc where
  "acc_empty = \<lparr>recall = [], precision = [], fscore = [], frac_new = [], frac_new2 = [],
     maxrad_list = [], err_lo = [], err_la = [], err_r = []\<rparr>"

text \<open>The state of the loop: the nine lists and the lines printed so far.\<close>

type_synonym state = "acc \<times> line list"

text \<open>
  The body of the loop of lines 139 to 164 for the index \<open>i\<close>, the prediction
  \<open>p = preds[i]\<close> and the entry \<open>e = csvs[i]\<close>. The five metrics are computed before
  anything is appended or printed, so an exception leaves the state as it was.
\<close>

definition step ::
  "int \<Rightarrow> ('p \<Rightarrow> csv_entry \<Rightarrow> match) \<Rightarrow> nat \<Rightarrow> 'p \<Rightarrow> csv_entry \<Rightarrow> state \<Rightarrow> error + state" where
  "step beta tm i p e st =
     (if len_entry e < 3 then Inr st
      else
        let m = tm p e in
        if N_match m > 0 then
          bind_err (image_metrics beta m) (\<lambda>(pr, r, f, fn, fn2).
            Inr ((fst st)\<lparr>recall := recall (fst st) @ [r],
                   precision := precision (fst st) @ [pr],
                   fscore := fscore (fst st) @ [f],
                   frac_new := frac_new (fst st) @ [fn],
                   frac_new2 := frac_new2 (fst st) @ [fn2],
                   maxrad_list := maxrad_list (fst st) @ [maxr m],
                   err_lo := err_lo (fst st) @ [elo m],
                   err_la := err_la (fst st) @ [ela m],
                   err_r := err_r (fst st) @ [er m]\<rparr>,
                 snd st @
                   (if length (csv_duplicates m) > 0
                    then [(''duplicate(s) (shown above) found in image %d'', [IntV (int i)])]
                    else [])))
        else
          Inr (fst st,
               snd st @
                 [(''skipping iteration %d,N_csv=%d,N_templ=%d,N_match=%d'',
                   [IntV (int i), IntV (N_csv m), IntV (N_templ m), IntV (N_match m)])]))"

fun loop ::
  "int \<Rightarrow> ('p \<Rightarrow> csv_entry \<Rightarrow> match) \<Rightarrow> nat \<Rightarrow> ('p \<times> csv_entry) list \<Rightarrow> state
     \<Rightarrow> state \<times> error option" where
  "loop beta tm i [] st = (st, None)"
| "loop beta tm i ((p, e) # rest) st =
     (case step beta tm i p e st of
        Inl err \<Rightarrow> (st, Some err)
      | Inr st' \<Rightarrow> loop beta tm (Suc i) rest st')"

section \<open>\<^verbatim>\<open>get_metrics\<close>: the summary\<close>

text \<open>
  The \<^verbatim>\<open>print\<close> statements of lines 168 to 186, in order. Six of them join the two
  halves of their format string with \<^verbatim>\<open>/\<close> at the end of the line.
\<close>

definition summary :: "int \<Rightarrow> acc \<Rightarrow> stmt list" where
  "summary beta a =
     [(Str ''mean and std of N_match/N_csv (recall) = %f, %f'',
         Inr [FloatV (np_mean (recall a)), FloatV (np_std (recall a))]),
      (StrDiv ''mean and std of N_match/(N_match + (N_templ-N_match)) ''
              ''(precision) = %f, %f'',
         Inr [FloatV (np_mean (precision a)), FloatV (np_std (precision a))]),
      (Str ''mean and std of F_%d score = %f, %f'',
         Inr [IntV beta, FloatV (np_mean (fscore a)), FloatV (np_std (fscore a))]),
      (StrDiv ''mean and std of (N_template - N_match)/N_template (fraction ''
              ''of craters that are new) = %f, %f'',
         Inr [FloatV (np_mean (frac_new a)), FloatV (np_std (frac_new a))]),
      (StrDiv ''mean and std of (N_template - N_match)/N_csv (fraction of ''
              ''craters that are new, 2) = %f, %f'',
         Inr [FloatV (np_mean (frac_new2 a)), FloatV (np_std (frac_new2 a))]),
      (StrDiv ''mean fractional difference between pred and GT craters = ''
              ''%f, %f, %f'',
         Inr [FloatV (np_mean (err_lo a)), FloatV (np_mean (err_la a)), FloatV (np_mean (err_r a))]),
      (StrDiv ''mean and std of maximum detected pixel radius in an image = ''
              ''%f, %f'',
         Inr [FloatV (np_mean (maxrad_list a)), FloatV (np_std (maxrad_list a))]),
      (StrDiv ''absolute maximum detected pixel radius over all images = ''
              ''%f'',
         map_sum id (\<lambda>v. [FloatV v]) (np_max (maxrad_list a))),
      (Str [], Inr [])]"

section \<open>\<^verbatim>\<open>get_metrics\<close>\<close>

text \<open>
  An image of the batch: its prediction \<^verbatim>\<open>preds[i]\<close> (the result of
  \<^verbatim>\<open>model.predict(X)\<close>, outside this module) and its table \<^verbatim>\<open>craters[get_id(i)]\<close>.
  \<open>xe\<close> is the value of \<^verbatim>\<open>model.evaluate(X, Y)\<close>. The result is what was printed and the
  exception that ended the call, if one did.
\<close>

record 'p sample =
  pred :: 'p
  craters :: "row list"

text \<open>The first loop, lines 118 to 130: the list \<^verbatim>\<open>csvs\<close>.\<close>

definition csvs_of :: "int \<Rightarrow> 'p sample list \<Rightarrow> csv_entry list" where
  "csvs_of dm imgs = map (\<lambda>g. csv_coords dm (craters g)) imgs"

text \<open>Lines 133 to 164: the two header lines, then the second loop from index 0.\<close>

definition collect ::
  "int \<Rightarrow> ('p \<Rightarrow> csv_entry \<Rightarrow> match) \<Rightarrow> int \<Rightarrow> 'p sample list \<Rightarrow> state \<times> error option" where
  "collect beta tm dm imgs =
     loop beta tm 0 (zip (map pred imgs) (csvs_of dm imgs))
       (acc_empty, [([], []), (''*********Custom Loss*********'', [])])"

definition get_metrics ::
  "('p \<Rightarrow> csv_entry \<Rightarrow> match) \<Rightarrow> real \<Rightarrow> 'p sample list \<Rightarrow> int \<Rightarrow> int
     \<Rightarrow> line list \<times> error option" where
  "get_metrics tm xe imgs dm beta =
     (case collect beta tm dm imgs of
        ((a, out), Some err) \<Rightarrow> (out, Some err)
      | ((a, out), None) \<Rightarrow>
          (let out1 = out @ [(''binary XE score = %f'', [FloatV xe])]
           in if length (recall a) > 3
              then (let (ls, e') = run_prints (summary beta a) in (out1 @ ls, e'))
              else (out1, None)))"

section \<open>The images that enter the aggregate\<close>

text \<open>
  The record the matcher returns for an image, and the images the second loop appends
  for: those with at least three rows left by the selection and \<open>N_match > 0\<close>.
\<close>

definition matched :: "('p \<Rightarrow> csv_entry \<Rightarrow> match) \<Rightarrow> int \<Rightarrow> 'p sample \<Rightarrow> match" where
  "matched tm dm g = tm (pred g) (csv_coords dm (craters g))"

definition usable :: "int \<Rightarrow> 'p sample \<Rightarrow> bool" where
  "usable dm g \<longleftrightarrow> 3 \<le> length (filter_csv dm (craters g))"

definition qualifies :: "('p \<Rightarrow> csv_entry \<Rightarrow> match) \<Rightarrow> int \<Rightarrow> 'p sample \<Rightarrow> bool" where
  "qualifies tm dm g \<longleftrightarrow> usable dm g \<and> 0 < N_match (matched tm dm g)"

definition included ::
  "('p \<Rightarrow> csv_entry \<Rightarrow> match) \<Rightarrow> int \<Rightarrow> 'p sample list \<Rightarrow> match list" where
  "included tm dm imgs = map (matched tm dm) (filter (qualifies tm dm) imgs)"

text \<open>
  The five quotients of lines 146 to 150 as total functions of the matcher's record
  (HOL's division, which is the float division wherever the divisor is not zero).
\<close>

definition p_of :: "match \<Rightarrow> real" where
  "p_of m = real_of_int (N_match m) / real_of_int (N_match m + (N_templ m - N_match m))"

definition r_of :: "match \<Rightarrow> real" where
  "r_of m = real_of_int (N_match m) / real_of_int (N_csv m)"

definition f_of :: "int \<Rightarrow> match \<Rightarrow> real" where
  "f_of beta m =
     real_of_int (1 + beta ^ 2) * (r_of m * p_of m) / (p_of m * real_of_int (beta ^ 2) + r_of m)"

definition fn_of :: "match \<Rightarrow> real" where
  "fn_of m = real_of_int (N_templ m - N_match m) / real_of_int (N_templ m)"

definition fn2_of :: "match \<Rightarrow> real" where
  "fn2_of m = real_of_int (N_templ m - N_match m) / real_of_int (N_csv m)"

text \<open>The nine lists after appending for the records \<open>ms\<close>, in order.\<close>

definition appended :: "int \<Rightarrow> acc \<Rightarrow> match list \<Rightarrow> acc" where
  "appended beta a ms =
     \<lparr>recall = recall a @ map r_of ms,
      precision = precision a @ map p_of ms,
      fscore = fscore a @ map (f_of beta) ms,
      frac_new = frac_new a @ map fn_of ms,
      frac_new2 = frac_new2 a @ map fn2_of ms,
      maxrad_list = maxrad_list a @ map maxr ms,
      err_lo = err_lo a @ map elo ms,
      err_la = err_la a @ map ela ms,
      err_r = err_r a @ map er ms\<rparr>"

section \<open>A concrete batch\<close>

text \<open>
  Tables for a 256 by 256 image: five circles that all pass the selection, and a table
  that keeps one circle only (its second row is too large, its third too near the left
  edge).
\<close>

definition ex_table :: "row list" where
  "ex_table =
     [\<lparr>col_x = 50, col_y = 50, col_diam = 10\<rparr>,
      \<lparr>col_x = 100, col_y = 100, col_diam = 20\<rparr>,
      \<lparr>col_x = 150, col_y = 150, col_diam = 30\<rparr>,
      \<lparr>col_x = 200, col_y = 100, col_diam = 16\<rparr>,
      \<lparr>col_x = 100, col_y = 200, col_diam = 12\<rparr>]"

definition ex_few :: "row list" where
  "ex_few =
     [\<lparr>col_x = 50, col_y = 50, col_diam = 10\<rparr>,
      \<lparr>col_x = 128, col_y = 128, col_diam = 120\<rparr>,
      \<lparr>col_x = 3, col_y = 100, col_diam = 10\<rparr>]"

text \<open>
  A stand-in for the matcher: the prediction carries the counts of matches and of
  detections, the largest radius and the error in x that the matcher is to report;
  \<open>N_csv\<close> is the length of the entry it is given.
\<close>

definition ex_tm :: "int \<times> int \<times> real \<times> real \<Rightarrow> csv_entry \<Rightarrow> match" where
  "ex_tm p e =
     (case p of (nm, nt, mr, ex) \<Rightarrow>
        \<lparr>N_match = nm, N_csv = int (len_entry e), N_templ = nt, maxr = mr,
         elo = ex, ela = 0, er = 0, csv_duplicates = []\<rparr>)"

text \<open>
  Image A: four of five circles recovered and one spurious detection. Image B: too few
  circles. Image Z: enough circles, no match. Image A7: as A with another error in x.
\<close>

definition img_A :: "(int \<times> int \<times> real \<times> real) sample" where
  "img_A = \<lparr>pred = (4, 5, 12, 1), craters = ex_table\<rparr>"

definition img_A7 :: "(int \<times> int \<times> real \<times> real) sample" where
  "img_A7 = \<lparr>pred = (4, 5, 12, 7), craters = ex_table\<rparr>"

definition img_B :: "(int \<times> int \<times> real \<times> real) sample" where
  "img_B = \<lparr>pred = (1, 1, 5, 0), craters = ex_few\<rparr>"


text \<open>Batches of these images: four that qualify, and three that qualify.\<close>

definition ex_batch4 :: "(int \<times> int \<times> real \<times> real) sample list" where
  "ex_batch4 = [img_A, img_A, img_A7, img_A7]"

definition ex_batch3 :: "(int \<times> int \<times> real \<times> real) sample list" where
  "ex_batch3 = [img_A, img_A7, img_A]"

section \<open>Auxiliary lemmas: one pass of the loop\<close>


lemma len_entry_csv_coords:
  "len_entry (csv_coords dm t) < 3 \<longleftrightarrow> length (filter_csv dm t) < 3"
  by (simp add: csv_coords_def Let_def)

lemma image_metrics_Inr:
  "image_metrics beta m = Inr x \<Longrightarrow> x = (p_of m, r_of m, f_of beta m, fn_of m, fn2_of m)"
  unfolding image_metrics_def bind_err_def float_div_def p_of_def r_of_def f_of_def fn_of_def fn2_of_def
  by (auto split: sum.splits if_splits)

lemma step_few: "len_entry e < 3 \<Longrightarrow> step beta tm i p e st = Inr st"
  by (simp add: step_def)

lemma step_nomatch:
  "\<not> len_entry e < 3 \<Longrightarrow> \<not> 0 < N_match (tm p e) \<Longrightarrow>
   step beta tm i p e st =
     Inr (fst st, snd st @ [(''skipping iteration %d,N_csv=%d,N_templ=%d,N_match=%d'',
            [IntV (int i), IntV (N_csv (tm p e)), IntV (N_templ (tm p e)), IntV (N_match (tm p e))])])"
  by (simp add: step_def Let_def)

lemma step_Inr_iff:
  "(\<exists>s. step beta tm i p e st = Inr s) \<longleftrightarrow>
     len_entry e < 3 \<or> \<not> 0 < N_match (tm p e) \<or> (\<exists>x. image_metrics beta (tm p e) = Inr x)"
  unfolding step_def Let_def bind_err_def
  by (auto split: sum.splits prod.splits)

lemma appended_Nil: "appended beta a [] = a"
  by (simp add: appended_def)

lemma appended_Cons:
  "appended beta (appended beta a [m]) ms = appended beta a (m # ms)"
  by (simp add: appended_def)

lemma step_match:
  assumes "\<not> len_entry e < 3" "0 < N_match (tm p e)" "step beta tm i p e st = Inr st'"
  shows "fst st' = appended beta (fst st) [tm p e]"
proof -
  from assms obtain x where x: "image_metrics beta (tm p e) = Inr x"
    unfolding step_def Let_def bind_err_def by (auto split: sum.splits)
  then have "x = (p_of (tm p e), r_of (tm p e), f_of beta (tm p e), fn_of (tm p e), fn2_of (tm p e))"
    by (rule image_metrics_Inr)
  with x assms show ?thesis
    unfolding step_def Let_def bind_err_def appended_def by auto
qed

section \<open>Auxiliary lemmas: the whole loop\<close>


lemma zip_entries:
  "zip (map pred imgs) (csvs_of dm imgs) = map (\<lambda>g. (pred g, csv_coords dm (craters g))) imgs"
  by (induction imgs) (simp_all add: csvs_of_def)

lemma loop_acc:
  "loop beta tm i (map (\<lambda>g. (pred g, csv_coords dm (craters g))) imgs) (a, out) = ((a', out'), None)
   \<Longrightarrow> a' = appended beta a (included tm dm imgs)"
proof (induction imgs arbitrary: i a out)
  case Nil
  then show ?case by (simp add: included_def appended_Nil)
next
  case (Cons g imgs)
  let ?e = "csv_coords dm (craters g)"
  from Cons.prems obtain a1 out1 where
    st: "step beta tm i (pred g) ?e (a, out) = Inr (a1, out1)"
    and rest: "loop beta tm (Suc i) (map (\<lambda>g. (pred g, csv_coords dm (craters g))) imgs) (a1, out1)
                = ((a', out'), None)"
    by (auto split: sum.splits)
  from Cons.IH [OF rest] have IH: "a' = appended beta a1 (included tm dm imgs)" .
  show ?case
  proof (cases "len_entry ?e < 3")
    case True
    then have "a1 = a" using st by (simp add: step_few)
    moreover have "\<not> qualifies tm dm g"
      using True by (simp add: qualifies_def usable_def len_entry_csv_coords)
    ultimately show ?thesis using IH by (simp add: included_def)
  next
    case False
    show ?thesis
    proof (cases "0 < N_match (tm (pred g) ?e)")
      case True
      then have q: "qualifies tm dm g"
        using False by (simp add: qualifies_def usable_def matched_def len_entry_csv_coords)
      from step_match [OF False True st] have "a1 = appended beta a [matched tm dm g]"
        by (simp add: matched_def)
      moreover have "included tm dm (g # imgs) = matched tm dm g # included tm dm imgs"
        using q by (simp add: included_def)
      ultimately show ?thesis using IH by (simp add: appended_Cons)
    next
      case nm: False
      then have "a1 = a" using st False by (simp add: step_nomatch)
      moreover have "\<not> qualifies tm dm g"
        using nm by (simp add: qualifies_def matched_def)
      ultimately show ?thesis using IH by (simp add: included_def)
    qed
  qed
qed

lemma collect_acc:
  "collect beta tm dm imgs = ((a, out), None) \<Longrightarrow> a = appended beta acc_empty (included tm dm imgs)"
  unfolding collect_def zip_entries by (rule loop_acc)

lemma loop_ok_iff:
  "(\<exists>s. loop beta tm i (map (\<lambda>g. (pred g, csv_coords dm (craters g))) imgs) st = (s, None)) \<longleftrightarrow>
   (\<forall>g\<in>set imgs. qualifies tm dm g \<longrightarrow> (\<exists>x. image_metrics beta (matched tm dm g) = Inr x))"
proof (induction imgs arbitrary: i st)
  case Nil
  show ?case by simp
next
  case (Cons g imgs)
  let ?e = "csv_coords dm (craters g)"
  have q: "qualifies tm dm g \<longleftrightarrow> \<not> len_entry ?e < 3 \<and> 0 < N_match (tm (pred g) ?e)"
    by (auto simp: qualifies_def usable_def matched_def len_entry_csv_coords)
  show ?case
  proof (cases "step beta tm i (pred g) ?e st")
    case (Inl err)
    then have "\<not> (\<exists>s. step beta tm i (pred g) ?e st = Inr s)" by simp
    then have "qualifies tm dm g \<and> \<not> (\<exists>x. image_metrics beta (matched tm dm g) = Inr x)"
      unfolding step_Inr_iff q by (simp add: matched_def)
    then show ?thesis using Inl by auto
  next
    case (Inr s')
    then have "\<exists>s. step beta tm i (pred g) ?e st = Inr s" by simp
    then have "qualifies tm dm g \<longrightarrow> (\<exists>x. image_metrics beta (matched tm dm g) = Inr x)"
      unfolding step_Inr_iff q by (auto simp: matched_def)
    then show ?thesis using Inr Cons.IH [of "Suc i" s'] by simp
  qed
qed

lemma collect_ok_iff:
  "(\<exists>s. collect beta tm dm imgs = (s, None)) \<longleftrightarrow>
   (\<forall>g\<in>set imgs. qualifies tm dm g \<longrightarrow> (\<exists>x. image_metrics beta (matched tm dm g) = Inr x))"
  unfolding collect_def zip_entries by (rule loop_ok_iff)

lemma collect_None_iff:
  "(\<exists>out. collect beta tm dm imgs = ((a, out), None)) \<longleftrightarrow>
   (\<forall>g\<in>set imgs. qualifies tm dm g \<longrightarrow> (\<exists>x. image_metrics beta (matched tm dm g) = Inr x)) \<and>
   a = appended beta acc_empty (included tm dm imgs)"
proof
  assume "\<exists>out. collect beta tm dm imgs = ((a, out), None)"
  then obtain out where c: "collect beta tm dm imgs = ((a, out), None)" ..
  then have "\<exists>s. collect beta tm dm imgs = (s, None)" by blast
  then show "(\<forall>g\<in>set imgs. qualifies tm dm g \<longrightarrow> (\<exists>x. image_metrics beta (matched tm dm g) = Inr x)) \<and>
   a = appended beta acc_empty (included tm dm imgs)"
    unfolding collect_ok_iff using collect_acc [OF c] by simp
next
  assume r: "(\<forall>g\<in>set imgs. qualifies tm dm g \<longrightarrow> (\<exists>x. image_metrics beta (matched tm dm g) = Inr x)) \<and>
   a = appended beta acc_empty (included tm dm imgs)"
  then have "\<exists>s. collect beta tm dm imgs = (s, None)" unfolding collect_ok_iff by simp
  then obtain a' out' where c: "collect beta tm dm imgs = ((a', out'), None)" by force
  from collect_acc [OF c] r have "a' = a" by simp
  with c show "\<exists>out. collect beta tm dm imgs = ((a, out), None)" by blast
qed

lemma collect_drop_unqualified:
  assumes "\<not> qualifies tm dm g"
  shows "(\<exists>out. collect beta tm dm (xs @ g # ys) = ((a, out), None)) \<longleftrightarrow>
         (\<exists>out. collect beta tm dm (xs @ ys) = ((a, out), None))"
proof -
  have "included tm dm (xs @ g # ys) = included tm dm (xs @ ys)"
    using assms by (simp add: included_def)
  moreover have "(\<forall>h\<in>set (xs @ g # ys). qualifies tm dm h \<longrightarrow> (\<exists>x. image_metrics beta (matched tm dm h) = Inr x))
     \<longleftrightarrow> (\<forall>h\<in>set (xs @ ys). qualifies tm dm h \<longrightarrow> (\<exists>x. image_metrics beta (matched tm dm h) = Inr x))"
    using assms by auto
  ultimately show ?thesis unfolding collect_None_iff by simp
qed

lemma run_prints_summary:
  "run_prints (summary beta a) =
     ([(''mean and std of N_match/N_csv (recall) = %f, %f'',
        [FloatV (np_mean (recall a)), FloatV (np_std (recall a))])], Some TypeError)"
  by (simp add: summary_def)

lemma length_recall_collect:
  "collect beta tm dm imgs = ((a, out), None) \<Longrightarrow>
   length (recall a) = length (filter (qualifies tm dm) imgs)"
  by (drule collect_acc) (simp add: appended_def acc_empty_def included_def)

lemma image_metrics_bounds:
  assumes "0 < N_match m" and "N_match m \<le> N_csv m" and "N_match m \<le> N_templ m"
  shows "image_metrics beta m = Inr (p_of m, r_of m, f_of beta m, fn_of m, fn2_of m)"
proof -
  from assms have t: "0 < N_templ m" and c: "0 < N_csv m" by linarith+
  have p: "0 < p_of m" using assms(1) t by (simp add: p_of_def)
  have r: "0 < r_of m" using assms(1) c by (simp add: r_of_def)
  have "0 \<le> p_of m * real_of_int (beta ^ 2)" using p by simp
  then have "p_of m * real_of_int (beta ^ 2) + r_of m \<noteq> 0" using r by linarith
  then have d: "real_of_int (N_match m) * real_of_int (beta ^ 2) / real_of_int (N_templ m) +
        real_of_int (N_match m) / real_of_int (N_csv m) \<noteq> 0"
    by (simp add: p_of_def r_of_def)
  show ?thesis using t c d
    by (simp add: image_metrics_def bind_err_def float_div_def p_of_def r_of_def f_of_def
        fn_of_def fn2_of_def)
qed

lemma collect_bounds:
  assumes "\<forall>g\<in>set imgs. qualifies tm dm g \<longrightarrow>
     N_match (matched tm dm g) \<le> N_csv (matched tm dm g) \<and>
     N_match (matched tm dm g) \<le> N_templ (matched tm dm g)"
  shows "\<exists>out. collect beta tm dm imgs =
           ((appended beta acc_empty (included tm dm imgs), out), None)"
proof -
  have "\<forall>g\<in>set imgs. qualifies tm dm g \<longrightarrow>
          (\<exists>x. image_metrics beta (matched tm dm g) = Inr x)"
  proof (intro ballI impI)
    fix g assume g: "g \<in> set imgs" and q: "qualifies tm dm g"
    from q have "0 < N_match (matched tm dm g)" by (simp add: qualifies_def)
    moreover from assms g q have "N_match (matched tm dm g) \<le> N_csv (matched tm dm g)"
      and "N_match (matched tm dm g) \<le> N_templ (matched tm dm g)" by blast+
    ultimately have "image_metrics beta (matched tm dm g) =
        Inr (p_of (matched tm dm g), r_of (matched tm dm g), f_of beta (matched tm dm g),
             fn_of (matched tm dm g), fn2_of (matched tm dm g))"
      by (rule image_metrics_bounds)
    then show "\<exists>x. image_metrics beta (matched tm dm g) = Inr x" by blast
  qed
  then show ?thesis unfolding collect_None_iff by simp
qed

section \<open>Auxiliary lemmas: the reductions depend on the multiset only\<close>


lemma np_mean_mset: "mset xs = mset ys \<Longrightarrow> np_mean xs = np_mean ys"
proof -
  assume eq: "mset xs = mset ys"
  then have "sum_mset (mset xs) = sum_mset (mset ys)" by simp
  then have "sum_list xs = sum_list ys" by (simp only: sum_mset_sum_list)
  moreover have "length xs = length ys" using eq by (rule mset_eq_length)
  ultimately show ?thesis by (simp add: np_mean_def)
qed

lemma np_std_mset: "mset xs = mset ys \<Longrightarrow> np_std xs = np_std ys"
proof -
  assume eq: "mset xs = mset ys"
  then have m: "np_mean xs = np_mean ys" by (rule np_mean_mset)
  have "mset (map (\<lambda>v. \<bar>v - np_mean ys\<bar> ^ 2) xs) = mset (map (\<lambda>v. \<bar>v - np_mean ys\<bar> ^ 2) ys)"
    using eq by (metis mset_map)
  then have "np_mean (map (\<lambda>v. \<bar>v - np_mean ys\<bar> ^ 2) xs) = np_mean (map (\<lambda>v. \<bar>v - np_mean ys\<bar> ^ 2) ys)"
    by (rule np_mean_mset)
  then show ?thesis unfolding np_std_def m by simp
qed

lemma np_max_Max: "np_max xs = (if xs = [] then Inl ValueError else Inr (Max (set xs)))"
proof (cases xs)
  case Nil
  then show ?thesis by simp
next
  case (Cons v vs)
  have "Max (set (v # vs)) = fold max vs v" by (rule Max.set_eq_fold)
  then show ?thesis using Cons by simp
qed

lemma np_max_mset: "mset xs = mset ys \<Longrightarrow> np_max xs = np_max ys"
proof -
  assume eq: "mset xs = mset ys"
  then have "set xs = set ys" by (rule mset_eq_setD)
  moreover have "xs = [] \<longleftrightarrow> ys = []" using eq by (metis mset_zero_iff)
  ultimately show ?thesis by (simp add: np_max_Max)
qed

lemma included_mset:
  "mset imgs' = mset imgs \<Longrightarrow> mset (included tm dm imgs') = mset (included tm dm imgs)"
  unfolding included_def by (metis mset_filter mset_map)

lemma appended_mset:
  assumes "mset ms' = mset ms"
  shows "mset (recall (appended beta acc_empty ms')) = mset (recall (appended beta acc_empty ms))"
    and "mset (precision (appended beta acc_empty ms')) = mset (precision (appended beta acc_empty ms))"
    and "mset (fscore (appended beta acc_empty ms')) = mset (fscore (appended beta acc_empty ms))"
    and "mset (frac_new (appended beta acc_empty ms')) = mset (frac_new (appended beta acc_empty ms))"
    and "mset (frac_new2 (appended beta acc_empty ms')) = mset (frac_new2 (appended beta acc_empty ms))"
    and "mset (maxrad_list (appended beta acc_empty ms')) = mset (maxrad_list (appended beta acc_empty ms))"
    and "mset (err_lo (appended beta acc_empty ms')) = mset (err_lo (appended beta acc_empty ms))"
    and "mset (err_la (appended beta acc_empty ms')) = mset (err_la (appended beta acc_empty ms))"
    and "mset (err_r (appended beta acc_empty ms')) = mset (err_r (appended beta acc_empty ms))"
  using assms by (simp_all add: appended_def acc_empty_def)

section \<open>Auxiliary lemmas: the concrete batch evaluated\<close>

lemma filter_ex_table: "filter_csv 256 ex_table = ex_table"
  by (simp add: filter_csv_def ex_table_def minrad_def maxrad_def cutrad_def)

lemma filter_ex_few: "filter_csv 256 ex_few = [\<lparr>col_x = 50, col_y = 50, col_diam = 10\<rparr>]"
  by (simp add: filter_csv_def ex_few_def minrad_def maxrad_def cutrad_def)

lemma coords_ex_table:
  "csv_coords 256 ex_table =
     Coords [(50, 50, 5), (100, 100, 10), (150, 150, 15), (200, 100, 8), (100, 200, 6)]"
  unfolding csv_coords_def filter_ex_table by (simp add: ex_table_def)

lemma coords_ex_few: "csv_coords 256 ex_few = Sentinel"
  unfolding csv_coords_def filter_ex_few by simp

lemma length_ex_table: "length ex_table = 5"
  by (simp add: ex_table_def)

lemma collect_AB:
  "collect 1 ex_tm 256 [img_A, img_B] =
     ((\<lparr>recall = [4 / 5], precision = [4 / 5], fscore = [4 / 5], frac_new = [1 / 5],
        frac_new2 = [1 / 5], maxrad_list = [12], err_lo = [1], err_la = [0], err_r = [0]\<rparr>,
       [([], []), (''*********Custom Loss*********'', [])]), None)"
  by (simp add: collect_def csvs_of_def img_A_def img_B_def coords_ex_table coords_ex_few
      step_def ex_tm_def Let_def image_metrics_def bind_err_def float_div_def acc_empty_def)

lemma included_AB:
  "included ex_tm 256 [img_A, img_B] =
     [\<lparr>N_match = 4, N_csv = 5, N_templ = 5, maxr = 12, elo = 1, ela = 0, er = 0,
       csv_duplicates = []\<rparr>]"
  by (simp add: included_def qualifies_def usable_def matched_def img_A_def img_B_def
      filter_ex_table filter_ex_few coords_ex_table ex_tm_def length_ex_table)

lemma step_A:
  "step 1 ex_tm i (4, 5, 12, v)
     (Coords [(50, 50, 5), (100, 100, 10), (150, 150, 15), (200, 100, 8), (100, 200, 6)]) (a, out) =
   Inr (a\<lparr>recall := recall a @ [4 / 5], precision := precision a @ [4 / 5],
           fscore := fscore a @ [4 / 5], frac_new := frac_new a @ [1 / 5],
           frac_new2 := frac_new2 a @ [1 / 5], maxrad_list := maxrad_list a @ [12],
           err_lo := err_lo a @ [v], err_la := err_la a @ [0], err_r := err_r a @ [0]\<rparr>, out)"
  by (simp add: step_def ex_tm_def Let_def image_metrics_def bind_err_def float_div_def)

lemma collect_batch4:
  "collect 1 ex_tm 256 ex_batch4 =
     ((\<lparr>recall = [4 / 5, 4 / 5, 4 / 5, 4 / 5], precision = [4 / 5, 4 / 5, 4 / 5, 4 / 5],
        fscore = [4 / 5, 4 / 5, 4 / 5, 4 / 5], frac_new = [1 / 5, 1 / 5, 1 / 5, 1 / 5],
        frac_new2 = [1 / 5, 1 / 5, 1 / 5, 1 / 5], maxrad_list = [12, 12, 12, 12],
        err_lo = [1, 1, 7, 7], err_la = [0, 0, 0, 0], err_r = [0, 0, 0, 0]\<rparr>,
       [([], []), (''*********Custom Loss*********'', [])]), None)"
  by (simp add: collect_def csvs_of_def ex_batch4_def img_A_def img_A7_def coords_ex_table
      step_A acc_empty_def)

lemma collect_batch3:
  "collect 1 ex_tm 256 ex_batch3 =
     ((\<lparr>recall = [4 / 5, 4 / 5, 4 / 5], precision = [4 / 5, 4 / 5, 4 / 5],
        fscore = [4 / 5, 4 / 5, 4 / 5], frac_new = [1 / 5, 1 / 5, 1 / 5],
        frac_new2 = [1 / 5, 1 / 5, 1 / 5], maxrad_list = [12, 12, 12],
        err_lo = [1, 7, 1], err_la = [0, 0, 0], err_r = [0, 0, 0]\<rparr>,
       [([], []), (''*********Custom Loss*********'', [])]), None)"
  by (simp add: collect_def csvs_of_def ex_batch3_def img_A_def img_A7_def coords_ex_table
      step_A acc_empty_def)

lemma qualifies_A: "qualifies ex_tm 256 img_A" "qualifies ex_tm 256 img_A7"
  by (simp_all add: qualifies_def usable_def matched_def img_A_def img_A7_def
      filter_ex_table length_ex_table coords_ex_table ex_tm_def)

lemma bounds_AB:
  "\<forall>g\<in>set [img_A, img_B]. qualifies ex_tm 256 g \<longrightarrow>
     N_match (matched ex_tm 256 g) \<le> N_csv (matched ex_tm 256 g) \<and>
     N_match (matched ex_tm 256 g) \<le> N_templ (matched ex_tm 256 g)"
  by (simp add: qualifies_def usable_def matched_def img_A_def img_B_def
      filter_ex_few coords_ex_table ex_tm_def)

section \<open>Properties of \<^verbatim>\<open>get_metrics\<close>: the metrics of an image\<close>

text \<open>
  Claim C1. Let the matcher's counts satisfy \<open>N_match \<le> N_csv\<close> and \<open>N_match \<le> N_templ\<close>
  on the images that qualify (at least three usable circles and \<open>N_match > 0\<close>). Then the
  loop of \<^verbatim>\<open>get_metrics\<close> ends without an exception, and the lists \<open>precision\<close>,
  \<open>recall\<close> and \<open>fscore\<close> hold, for the included images in order, the values
  \<open>N_match / (N_match + (N_templ - N_match))\<close>, \<open>N_match / N_csv\<close> and
  \<open>(1 + beta\<^sup>2) * (recall * precision) / (precision * beta\<^sup>2 + recall)\<close> of the counts the
  matcher returned for that image; with the default \<open>beta = 1\<close> of the optional parameter
  the last is \<open>2 * (recall * precision) / (precision + recall)\<close>.
\<close>

theorem collect_precision_recall_fscore:
  assumes "\<forall>g\<in>set imgs. qualifies tm dm g \<longrightarrow>
     N_match (matched tm dm g) \<le> N_csv (matched tm dm g) \<and>
     N_match (matched tm dm g) \<le> N_templ (matched tm dm g)"
  shows "\<exists>a out. collect beta tm dm imgs = ((a, out), None) \<and>
         precision a =
           map (\<lambda>m. real_of_int (N_match m) / real_of_int (N_match m + (N_templ m - N_match m)))
             (included tm dm imgs) \<and>
         recall a =
           map (\<lambda>m. real_of_int (N_match m) / real_of_int (N_csv m)) (included tm dm imgs) \<and>
         fscore a =
           map (\<lambda>m. real_of_int (1 + beta ^ 2) *
                      (real_of_int (N_match m) / real_of_int (N_csv m) *
                       (real_of_int (N_match m) / real_of_int (N_match m + (N_templ m - N_match m)))) /
                     (real_of_int (N_match m) / real_of_int (N_match m + (N_templ m - N_match m)) *
                        real_of_int (beta ^ 2) +
                      real_of_int (N_match m) / real_of_int (N_csv m)))
             (included tm dm imgs) \<and>
         (beta = beta_default \<longrightarrow>
            fscore a =
              map (\<lambda>m. 2 * (real_of_int (N_match m) / real_of_int (N_csv m) *
                             (real_of_int (N_match m) /
                              real_of_int (N_match m + (N_templ m - N_match m)))) /
                        (real_of_int (N_match m) / real_of_int (N_match m + (N_templ m - N_match m)) +
                         real_of_int (N_match m) / real_of_int (N_csv m)))
                (included tm dm imgs))"
proof -
  from collect_bounds [OF assms] obtain out where
    c: "collect beta tm dm imgs = ((appended beta acc_empty (included tm dm imgs), out), None)"
    by blast
  show ?thesis
    by (rule exI [of _ "appended beta acc_empty (included tm dm imgs)"], rule exI [of _ out])
      (simp add: c appended_def acc_empty_def p_of_def r_of_def f_of_def beta_default_def)
qed

theorem collect_precision_recall_fscore_witness:
  "snd (collect 1 ex_tm 256 [img_A, img_B]) = None \<and>
   precision (fst (fst (collect 1 ex_tm 256 [img_A, img_B]))) = [4 / 5] \<and>
   recall (fst (fst (collect 1 ex_tm 256 [img_A, img_B]))) = [4 / 5] \<and>
   fscore (fst (fst (collect 1 ex_tm 256 [img_A, img_B]))) = [4 / 5]"
proof -
  from collect_precision_recall_fscore [OF bounds_AB, of 1] show ?thesis
    by (auto simp: included_AB)
qed

text \<open>
  Claim C9. Under the same bounds on the matcher's counts the loop ends without an
  exception, and the lists \<open>frac_new\<close> and \<open>frac_new2\<close> hold, for the included images in
  order, \<open>(N_templ - N_match) / N_templ\<close> and \<open>(N_templ - N_match) / N_csv\<close> of that
  image's matcher counts.
\<close>

theorem collect_frac_new:
  assumes "\<forall>g\<in>set imgs. qualifies tm dm g \<longrightarrow>
     N_match (matched tm dm g) \<le> N_csv (matched tm dm g) \<and>
     N_match (matched tm dm g) \<le> N_templ (matched tm dm g)"
  shows "\<exists>a out. collect beta tm dm imgs = ((a, out), None) \<and>
         frac_new a =
           map (\<lambda>m. real_of_int (N_templ m - N_match m) / real_of_int (N_templ m))
             (included tm dm imgs) \<and>
         frac_new2 a =
           map (\<lambda>m. real_of_int (N_templ m - N_match m) / real_of_int (N_csv m))
             (included tm dm imgs)"
proof -
  from collect_bounds [OF assms] obtain out where
    c: "collect beta tm dm imgs = ((appended beta acc_empty (included tm dm imgs), out), None)"
    by blast
  show ?thesis
    by (rule exI [of _ "appended beta acc_empty (included tm dm imgs)"], rule exI [of _ out])
      (simp add: c appended_def acc_empty_def fn_of_def fn2_of_def)
qed

theorem collect_frac_new_witness:
  "snd (collect 1 ex_tm 256 [img_A, img_B]) = None \<and>
   frac_new (fst (fst (collect 1 ex_tm 256 [img_A, img_B]))) = [1 / 5] \<and>
   frac_new2 (fst (fst (collect 1 ex_tm 256 [img_A, img_B]))) = [1 / 5]"
proof -
  from collect_frac_new [OF bounds_AB, of 1] show ?thesis
    by (auto simp: included_AB)
qed

text \<open>
  Claim C5. For a matcher record with \<open>0 < N_match\<close>, \<open>N_match \<le> N_csv\<close> and
  \<open>N_match \<le> N_templ\<close>, each of the divisors of lines 146 to 150 is different from zero
  (\<open>N_match + (N_templ - N_match)\<close>, \<open>N_csv\<close>, \<open>p * beta\<^sup>2 + r\<close>, \<open>N_templ\<close>), and the
  computation of the five metrics returns them without ZeroDivisionError.
\<close>

theorem image_metrics_no_zero_division:
  assumes "0 < N_match m" and "N_match m \<le> N_csv m" and "N_match m \<le> N_templ m"
  shows "real_of_int (N_match m + (N_templ m - N_match m)) \<noteq> 0 \<and>
         real_of_int (N_csv m) \<noteq> 0 \<and>
         p_of m * real_of_int (beta ^ 2) + r_of m \<noteq> 0 \<and>
         real_of_int (N_templ m) \<noteq> 0 \<and>
         image_metrics beta m = Inr (p_of m, r_of m, f_of beta m, fn_of m, fn2_of m)"
proof -
  from assms have t: "0 < N_templ m" and c: "0 < N_csv m" by linarith+
  have p: "0 < p_of m" using assms(1) t by (simp add: p_of_def)
  have r: "0 < r_of m" using assms(1) c by (simp add: r_of_def)
  have "0 \<le> p_of m * real_of_int (beta ^ 2)" using p by simp
  then have d: "p_of m * real_of_int (beta ^ 2) + r_of m \<noteq> 0" using r by linarith
  have d': "real_of_int (N_match m) * real_of_int (beta ^ 2) / real_of_int (N_templ m) +
        real_of_int (N_match m) / real_of_int (N_csv m) \<noteq> 0"
    using d by (simp add: p_of_def r_of_def)
  show ?thesis using t c d d'
    by (simp add: image_metrics_def bind_err_def float_div_def p_of_def r_of_def f_of_def
        fn_of_def fn2_of_def)
qed

theorem image_metrics_no_zero_division_witness:
  "image_metrics 1 \<lparr>N_match = 4, N_csv = 5, N_templ = 5, maxr = 12, elo = 1, ela = 0, er = 0,
       csv_duplicates = []\<rparr> = Inr (4 / 5, 4 / 5, 4 / 5, 1 / 5, 1 / 5)"
  using image_metrics_no_zero_division
    [of "\<lparr>N_match = 4, N_csv = 5, N_templ = 5, maxr = 12, elo = 1, ela = 0, er = 0,
          csv_duplicates = []\<rparr>" 1]
  by (simp add: p_of_def r_of_def f_of_def fn_of_def fn2_of_def)

section \<open>Properties of \<^verbatim>\<open>get_metrics\<close>: the selection of ground-truth rows\<close>

text \<open>
  Claim C2, as amended. \<^verbatim>\<open>get_metrics\<close> keeps exactly the rows whose radius
  (diameter / 2) lies strictly between \<open>minrad = 2\<close> and \<open>maxrad = 50\<close> and whose centre
  keeps a margin of \<open>cutrad = 0.8\<close> times the radius (not the diameter) from the four edges:
  strictly more than the margin from the edges at 0, at least the margin from the edges
  at \<open>dim\<close>. The rows kept stay in their order.
\<close>

theorem filter_csv_keeps:
  "filter_csv dm csv =
     filter (\<lambda>c. minrad < col_diam c / 2 \<and> col_diam c / 2 < maxrad \<and>
                 col_x c + cutrad * (col_diam c / 2) \<le> real_of_int dm \<and>
                 col_y c + cutrad * (col_diam c / 2) \<le> real_of_int dm \<and>
                 0 < col_x c - cutrad * (col_diam c / 2) \<and>
                 0 < col_y c - cutrad * (col_diam c / 2)) csv \<and>
   minrad = 2 \<and> maxrad = 50 \<and> cutrad = 8 / 10"
proof -
  have "filter_csv dm csv =
     filter (\<lambda>c. minrad < col_diam c / 2 \<and> col_diam c / 2 < maxrad \<and>
                 col_x c + cutrad * (col_diam c / 2) \<le> real_of_int dm \<and>
                 col_y c + cutrad * (col_diam c / 2) \<le> real_of_int dm \<and>
                 0 < col_x c - cutrad * (col_diam c / 2) \<and>
                 0 < col_y c - cutrad * (col_diam c / 2)) csv"
    unfolding filter_csv_def Let_def filter_filter
    by (rule filter_cong) auto
  then show ?thesis by (simp add: minrad_def maxrad_def cutrad_def)
qed

text \<open>
  Claim C2 as stated fails: in a 100 by 100 image the code keeps a circle of diameter 80
  centred at (50, 50), which is nearer to every edge than 0.8 times its diameter, and a
  circle of diameter 10 centred at (96, 50), which is exactly 0.8 times its radius from the
  right edge.
\<close>

theorem filter_csv_spec_counterexample:
  "filter_csv 100 [\<lparr>col_x = 50, col_y = 50, col_diam = 80\<rparr>, \<lparr>col_x = 96, col_y = 50, col_diam = 10\<rparr>] =
     [\<lparr>col_x = 50, col_y = 50, col_diam = 80\<rparr>, \<lparr>col_x = 96, col_y = 50, col_diam = 10\<rparr>] \<and>
   \<not> spec_keeps_row 100 \<lparr>col_x = 50, col_y = 50, col_diam = 80\<rparr> \<and>
   \<not> spec_keeps_row 100 \<lparr>col_x = 96, col_y = 50, col_diam = 10\<rparr>"
  by (simp add: filter_csv_def spec_keeps_row_def minrad_def maxrad_def cutrad_def)

section \<open>Properties of \<^verbatim>\<open>get_metrics\<close>: the images left out\<close>

text \<open>
  Claim C3. An image whose table keeps fewer than three rows is passed over by the loop:
  its pass returns the state as it was (the nine lists \<open>recall\<close>, \<open>precision\<close>, \<open>fscore\<close>,
  \<open>frac_new\<close>, \<open>frac_new2\<close>, \<open>maxrad\<close>, \<open>err_lo\<close>, \<open>err_la\<close>, \<open>err_r\<close> and the printed lines)
  and raises nothing, and a batch ends its loop with the same nine lists with the image as
  without it.
\<close>

theorem few_circles_image_excluded:
  assumes "length (filter_csv dm (craters g)) < 3"
  shows "step beta tm i (pred g) (csv_coords dm (craters g)) st = Inr st \<and>
         ((\<exists>out. collect beta tm dm (xs @ g # ys) = ((a, out), None)) \<longleftrightarrow>
          (\<exists>out. collect beta tm dm (xs @ ys) = ((a, out), None)))"
proof -
  from assms have "len_entry (csv_coords dm (craters g)) < 3"
    by (simp add: len_entry_csv_coords)
  then have "step beta tm i (pred g) (csv_coords dm (craters g)) st = Inr st"
    by (rule step_few)
  moreover from assms have "\<not> qualifies tm dm g"
    by (simp add: qualifies_def usable_def)
  ultimately show ?thesis using collect_drop_unqualified by blast
qed

theorem few_circles_image_excluded_witness:
  "length (filter_csv 256 (craters img_B)) < 3 \<and>
   step 1 ex_tm 1 (pred img_B) (csv_coords 256 (craters img_B)) (acc_empty, []) =
     Inr (acc_empty, []) \<and>
   (\<exists>out. collect 1 ex_tm 256 [img_A] =
      ((\<lparr>recall = [4 / 5], precision = [4 / 5], fscore = [4 / 5], frac_new = [1 / 5],
         frac_new2 = [1 / 5], maxrad_list = [12], err_lo = [1], err_la = [0], err_r = [0]\<rparr>,
        out), None))"
proof -
  let ?a = "\<lparr>recall = [4 / 5], precision = [4 / 5], fscore = [4 / 5], frac_new = [1 / 5],
         frac_new2 = [1 / 5], maxrad_list = [12], err_lo = [1], err_la = [0], err_r = [0]\<rparr>"
  have h: "length (filter_csv 256 (craters img_B)) < 3"
    by (simp add: img_B_def filter_ex_few)
  note t = few_circles_image_excluded [OF h, where beta = 1 and tm = ex_tm and i = 1
      and st = "(acc_empty, [])" and xs = "[img_A]" and ys = "[]" and a = ?a]
  from t have s: "step 1 ex_tm 1 (pred img_B) (csv_coords 256 (craters img_B)) (acc_empty, []) =
     Inr (acc_empty, [])" by (rule conjunct1)
  from t have e: "(\<exists>out. collect 1 ex_tm 256 ([img_A] @ [img_B]) = ((?a, out), None)) \<longleftrightarrow>
      (\<exists>out. collect 1 ex_tm 256 ([img_A] @ []) = ((?a, out), None))" by (rule conjunct2)
  have "\<exists>out. collect 1 ex_tm 256 ([img_A] @ [img_B]) = ((?a, out), None)"
    using collect_AB by (intro exI) simp
  with e have "\<exists>out. collect 1 ex_tm 256 ([img_A] @ []) = ((?a, out), None)" by (rule iffD1)
  then have "\<exists>out. collect 1 ex_tm 256 [img_A] = ((?a, out), None)" by simp
  with h s show ?thesis by (intro conjI)
qed



section \<open>Properties of \<^verbatim>\<open>get_metrics\<close>: the summary\<close>

text \<open>
  Claim C6 says that the summary, when it is produced, holds the mean and the standard
  deviation of every per-image metric and the maximum of the per-image maximum radii.
  The code does not get that far. Whenever the loop ends without exception and more than
  three images qualify, the call prints the score line and the mean and standard
  deviation of recall (line 168) and then raises TypeError: the statement of line 170
  joins the two halves of its format string with \<^verbatim>\<open>/\<close>, a division of strings, where
  the statements of lines 168 and 172 are plain format strings. No statistic of
  precision, F-beta score, \<open>frac_new\<close>, \<open>frac_new2\<close>, the errors or the radii is printed.
\<close>

theorem summary_raises_TypeError:
  assumes "collect beta tm dm imgs = ((a, out), None)"
    and "3 < length (filter (qualifies tm dm) imgs)"
  shows "get_metrics tm xe imgs dm beta =
           (out @ [(''binary XE score = %f'', [FloatV xe]),
                   (''mean and std of N_match/N_csv (recall) = %f, %f'',
                    [FloatV (np_mean (recall a)), FloatV (np_std (recall a))])],
            Some TypeError)"
  using assms length_recall_collect [OF assms(1)]
  by (simp add: get_metrics_def Let_def run_prints_summary)

theorem summary_raises_TypeError_witness:
  "snd (collect 1 ex_tm 256 ex_batch4) = None \<and>
   3 < length (filter (qualifies ex_tm 256) ex_batch4) \<and>
   get_metrics ex_tm 0 ex_batch4 256 1 =
     ([([], []), (''*********Custom Loss*********'', []),
       (''binary XE score = %f'', [FloatV 0]),
       (''mean and std of N_match/N_csv (recall) = %f, %f'', [FloatV (4 / 5), FloatV 0])],
      Some TypeError)"
proof -
  have l: "3 < length (filter (qualifies ex_tm 256) ex_batch4)"
    by (simp add: ex_batch4_def qualifies_A)
  have s: "np_std [4 / 5, 4 / 5, 4 / 5, 4 / 5] = 0" "np_mean [4 / 5, 4 / 5, 4 / 5, 4 / 5] = 4 / 5"
    by (simp_all add: np_std_def np_mean_def)
  from summary_raises_TypeError [OF collect_batch4 l, of 0] l s show ?thesis
    by (simp add: collect_batch4)
qed

text \<open>
  Claim C7, as amended. After a loop without exception \<^verbatim>\<open>get_metrics\<close> prints the
  score line and then enters the summary block if and only if strictly more than three
  images qualify; the block prints at least its first line. With three or fewer
  qualifying images nothing follows the score line and nothing is raised: the summary is
  left out without a line that says so.
\<close>

theorem summary_threshold:
  assumes "collect beta tm dm imgs = ((a, out), None)"
  shows "get_metrics tm xe imgs dm beta =
           (if 3 < length (filter (qualifies tm dm) imgs)
            then (out @ (''binary XE score = %f'', [FloatV xe]) # fst (run_prints (summary beta a)),
                  snd (run_prints (summary beta a)))
            else (out @ [(''binary XE score = %f'', [FloatV xe])], None)) \<and>
         fst (run_prints (summary beta a)) \<noteq> []"
  using assms length_recall_collect [OF assms]
  by (simp add: get_metrics_def Let_def run_prints_summary)

theorem summary_threshold_witness:
  "snd (collect 1 ex_tm 256 ex_batch3) = None \<and>
   \<not> 3 < length (filter (qualifies ex_tm 256) ex_batch3) \<and>
   get_metrics ex_tm 0 ex_batch3 256 1 =
     (snd (fst (collect 1 ex_tm 256 ex_batch3)) @ [(''binary XE score = %f'', [FloatV 0])], None)"
proof -
  let ?c = "collect 1 ex_tm 256 ex_batch3"
  have n: "snd ?c = None" by (simp add: collect_batch3)
  then have h: "?c = ((fst (fst ?c), snd (fst ?c)), None)" by (simp add: prod_eq_iff)
  have l: "\<not> 3 < length (filter (qualifies ex_tm 256) ex_batch3)"
    by (simp add: ex_batch3_def qualifies_A)
  from summary_threshold [OF h, of 0] n l show ?thesis by simp
qed

text \<open>
  Claim C7 as stated fails on a batch of three qualifying images: the call prints the
  two header lines and the score line and nothing else, so the missing summary is not
  reported.
\<close>

theorem summary_skip_counterexample:
  "length (filter (qualifies ex_tm 256) ex_batch3) = 3 \<and>
   get_metrics ex_tm 0 ex_batch3 256 1 =
     ([([], []), (''*********Custom Loss*********'', []),
       (''binary XE score = %f'', [FloatV 0])], None)"
  by (simp add: get_metrics_def collect_batch3) (simp add: ex_batch3_def qualifies_A)

section \<open>Properties of \<^verbatim>\<open>get_metrics\<close>: the order of the images\<close>

text \<open>
  Claim C8. If the images of a batch are processed in another order (any permutation of
  the list) and the loop ends without exception in the one order, it does so in the other,
  the same number of images is included, and every aggregate is the same in exact
  arithmetic: the mean and the standard deviation of each of the nine lists, the maximum
  of the per-image maximum radii, and with them all operands of the summary.
\<close>

theorem aggregates_order_independent:
  assumes "mset imgs' = mset imgs" and "collect beta tm dm imgs = ((a, out), None)"
  shows "\<exists>a' out'. collect beta tm dm imgs' = ((a', out'), None) \<and>
     length (recall a') = length (recall a) \<and>
     np_mean (recall a') = np_mean (recall a) \<and> np_std (recall a') = np_std (recall a) \<and>
     np_mean (precision a') = np_mean (precision a) \<and>
     np_std (precision a') = np_std (precision a) \<and>
     np_mean (fscore a') = np_mean (fscore a) \<and> np_std (fscore a') = np_std (fscore a) \<and>
     np_mean (frac_new a') = np_mean (frac_new a) \<and>
     np_std (frac_new a') = np_std (frac_new a) \<and>
     np_mean (frac_new2 a') = np_mean (frac_new2 a) \<and>
     np_std (frac_new2 a') = np_std (frac_new2 a) \<and>
     np_mean (maxrad_list a') = np_mean (maxrad_list a) \<and>
     np_std (maxrad_list a') = np_std (maxrad_list a) \<and>
     np_mean (err_lo a') = np_mean (err_lo a) \<and> np_std (err_lo a') = np_std (err_lo a) \<and>
     np_mean (err_la a') = np_mean (err_la a) \<and> np_std (err_la a') = np_std (err_la a) \<and>
     np_mean (err_r a') = np_mean (err_r a) \<and> np_std (err_r a') = np_std (err_r a) \<and>
     np_max (maxrad_list a') = np_max (maxrad_list a) \<and>
     summary beta a' = summary beta a"
proof -
  let ?ms = "included tm dm imgs" and ?ms' = "included tm dm imgs'"
  let ?a' = "appended beta acc_empty ?ms'"
  from assms(1) have s: "set imgs' = set imgs" by (rule mset_eq_setD)
  from assms(2) have "\<exists>out. collect beta tm dm imgs = ((a, out), None)" by blast
  then have ok: "\<forall>g\<in>set imgs. qualifies tm dm g \<longrightarrow>
        (\<exists>x. image_metrics beta (matched tm dm g) = Inr x)"
    and a: "a = appended beta acc_empty ?ms"
    unfolding collect_None_iff by simp_all
  from ok s have "\<exists>out'. collect beta tm dm imgs' = ((?a', out'), None)"
    unfolding collect_None_iff by simp
  then obtain out' where c': "collect beta tm dm imgs' = ((?a', out'), None)" ..
  from assms(1) have m: "mset ?ms' = mset ?ms" by (rule included_mset)
  note f = appended_mset [OF m, of beta, folded a]
  have len: "length (recall ?a') = length (recall a)"
    using f(1) by (rule mset_eq_length)
  have means: "np_mean (recall ?a') = np_mean (recall a)"
    "np_mean (precision ?a') = np_mean (precision a)"
    "np_mean (fscore ?a') = np_mean (fscore a)"
    "np_mean (frac_new ?a') = np_mean (frac_new a)"
    "np_mean (frac_new2 ?a') = np_mean (frac_new2 a)"
    "np_mean (maxrad_list ?a') = np_mean (maxrad_list a)"
    "np_mean (err_lo ?a') = np_mean (err_lo a)"
    "np_mean (err_la ?a') = np_mean (err_la a)"
    "np_mean (err_r ?a') = np_mean (err_r a)"
    by (rule np_mean_mset, rule f)+
  have stds: "np_std (recall ?a') = np_std (recall a)"
    "np_std (precision ?a') = np_std (precision a)"
    "np_std (fscore ?a') = np_std (fscore a)"
    "np_std (frac_new ?a') = np_std (frac_new a)"
    "np_std (frac_new2 ?a') = np_std (frac_new2 a)"
    "np_std (maxrad_list ?a') = np_std (maxrad_list a)"
    "np_std (err_lo ?a') = np_std (err_lo a)"
    "np_std (err_la ?a') = np_std (err_la a)"
    "np_std (err_r ?a') = np_std (err_r a)"
    by (rule np_std_mset, rule f)+
  have mx: "np_max (maxrad_list ?a') = np_max (maxrad_list a)"
    by (rule np_max_mset, rule f)
  have sm: "summary beta ?a' = summary beta a"
    unfolding summary_def means stds mx ..
  from c' len means stds mx sm show ?thesis by blast
qed

theorem aggregates_order_independent_witness:
  "mset [img_A7, img_A, img_A7, img_A] = mset ex_batch4 \<and>
   snd (collect 1 ex_tm 256 ex_batch4) = None \<and>
   snd (collect 1 ex_tm 256 [img_A7, img_A, img_A7, img_A]) = None \<and>
   np_mean (err_lo (fst (fst (collect 1 ex_tm 256 [img_A7, img_A, img_A7, img_A])))) =
     np_mean (err_lo (fst (fst (collect 1 ex_tm 256 ex_batch4)))) \<and>
   np_std (err_lo (fst (fst (collect 1 ex_tm 256 [img_A7, img_A, img_A7, img_A])))) =
     np_std (err_lo (fst (fst (collect 1 ex_tm 256 ex_batch4)))) \<and>
   summary 1 (fst (fst (collect 1 ex_tm 256 [img_A7, img_A, img_A7, img_A]))) =
     summary 1 (fst (fst (collect 1 ex_tm 256 ex_batch4)))"
proof -
  let ?c = "collect 1 ex_tm 256 ex_batch4"
  have p: "mset [img_A7, img_A, img_A7, img_A] = mset ex_batch4"
    by (simp add: ex_batch4_def)
  have n: "snd ?c = None" by (simp add: collect_batch4)
  then have h: "?c = ((fst (fst ?c), snd (fst ?c)), None)" by (simp add: prod_eq_iff)
  from aggregates_order_independent [OF p h] p n show ?thesis by auto
qed

section \<open>Properties of \<^verbatim>\<open>get_param_i\<close>\<close>

text \<open>
  Claim C10. For every non-empty list \<open>param\<close> and every natural number \<open>i\<close>,
  \<open>get_param_i param i\<close> returns \<open>param[i]\<close> when \<open>i < len(param)\<close> and \<open>param[0]\<close>
  otherwise: an iteration beyond the length of the list reuses the first element and
  raises nothing.
\<close>

theorem get_param_i_nat:
  "param \<noteq> [] \<Longrightarrow>
   get_param_i param (int i) = Inr (if i < length param then param ! i else param ! 0)"
  by (simp add: get_param_i_def py_index_def)

theorem get_param_i_nat_witness:
  "[10, 20, 30 :: int] \<noteq> [] \<and>
   get_param_i [10, 20, 30 :: int] (int 1) = Inr 20 \<and>
   get_param_i [10, 20, 30 :: int] (int 7) = Inr 10"
  using get_param_i_nat [of "[10, 20, 30 :: int]" 1] get_param_i_nat [of "[10, 20, 30 :: int]" 7]
  by simp

end
